theory Spec2Isabelle
  imports Main "HOL-Library.Word" "HOL-Library.Finite_Map"
begin

section \<open>The bundle loader of Firestore/core/src/bundle/bundle_loader.cc\<close>

text \<open>
  A shallow embedding of \<^verbatim>\<open>BundleLoader::AddElement\<close>, \<^verbatim>\<open>BundleLoader::ApplyChanges\<close>
  and \<^verbatim>\<open>BundleLoader::GetQueryDocumentMapping\<close>. The loader object is a record that
  every member function takes and returns; a failed \<^verbatim>\<open>HARD_ASSERT\<close> and a
  \<^verbatim>\<open>Status\<close> error are values of the result; the persistence callback is seen through
  the list of calls made to it.
\<close>

subsection \<open>Data model\<close>

text \<open>
  The headers that declare these classes are not part of the sources at hand; the
  accessors that bundle\_loader.cc calls fix the fields. A member \<^verbatim>\<open>x_\<close> of the C++
  class is the field \<open>x\<close> here, and the accessors \<^verbatim>\<open>key()\<close>, \<^verbatim>\<open>exists()\<close>,
  \<^verbatim>\<open>read_time()\<close>, \<^verbatim>\<open>queries()\<close> of an element carry the element's prefix.
\<close>

type_synonym DocumentKey = string
type_synonym SnapshotVersion = nat
type_synonym ObjectValue = string
type_synonym DocumentKeySet = "DocumentKey set"

datatype MaybeDocument =
    ModelDocument DocumentKey SnapshotVersion ObjectValue
  | NoDocument DocumentKey SnapshotVersion bool

type_synonym MaybeDocumentMap = "(DocumentKey, MaybeDocument) fmap"

record BundleMetadata =
  bundle_id :: string
  total_documents :: nat
  total_bytes :: "64 word"

record NamedQuery =
  query_name :: string
  bundled_query :: string

record BundledDocumentMetadata =
  dm_key :: DocumentKey
  dm_read_time :: SnapshotVersion
  dm_exists :: bool
  dm_queries :: "string list"

record BundleDocument =
  doc_key :: DocumentKey
  doc_version :: SnapshotVersion
  doc_data :: ObjectValue

text \<open>\<^verbatim>\<open>BundleDocument::document()\<close>: the \<^verbatim>\<open>model::Document\<close> the element wraps.\<close>

definition document :: "BundleDocument \<Rightarrow> MaybeDocument" where
  "document d = ModelDocument (doc_key d) (doc_version d) (doc_data d)"

datatype BundleElementType = Metadata | NamedQuery | DocumentMetadata | Document

text \<open>
  \<^verbatim>\<open>BundleElement\<close> with its four subclasses; \<^verbatim>\<open>ElementType()\<close> names the subclass, so
  each \<^verbatim>\<open>dynamic_cast\<close> of the source is the match on the constructor.
\<close>

datatype BundleElement =
    MetadataElement BundleMetadata
  | NamedQueryElement NamedQuery
  | DocumentMetadataElement BundledDocumentMetadata
  | DocumentElement BundleDocument

fun ElementType :: "BundleElement \<Rightarrow> BundleElementType" where
  "ElementType (MetadataElement _) = Metadata"
| "ElementType (NamedQueryElement _) = NamedQuery"
| "ElementType (DocumentMetadataElement _) = DocumentMetadata"
| "ElementType (DocumentElement _) = Document"

text \<open>The error codes of firestore\_errors.h that the loader meets.\<close>

datatype Error = kErrorOk | kErrorInvalidArgument

datatype Status = FromErrno Error string

fun code :: "Status \<Rightarrow> Error" where
  "code (FromErrno e _) = e"

text \<open>\<^verbatim>\<open>StatusOr<T>\<close>: \<open>Inl\<close> a non-OK status, \<open>Inr\<close> the value.\<close>

type_synonym 'a StatusOr = "Status + 'a"

text \<open>
  A call either returns or dies in \<^verbatim>\<open>HARD_ASSERT\<close>, which does not return to the
  caller and leaves no loader behind.
\<close>

datatype 'a Outcome = HardAssertFailed string | Returned 'a

text \<open>The state of a load task; while elements are added it is \<open>Running\<close>.\<close>

datatype TaskState = Error | Running | Success

record LoadBundleTaskProgress =
  progress_documents_loaded :: nat
  progress_total_documents :: nat
  progress_bytes_loaded :: "64 word"
  progress_total_bytes :: "64 word"
  progress_state :: TaskState

text \<open>
  The members of \<^verbatim>\<open>BundleLoader\<close>. \<open>documents\<close> is the immutable sorted map
  (\<^verbatim>\<open>documents_ = documents_.insert(k, v)\<close> adds or replaces the entry of \<open>k\<close>);
  \<open>documents_metadata\<close> is a \<^verbatim>\<open>std::unordered_map\<close>, kept as the list of its
  entries in the order a \<^verbatim>\<open>for\<close> loop visits them; \<open>bytes_loaded\<close> is a
  \<^verbatim>\<open>uint64_t\<close>.
\<close>

record BundleLoader =
  metadata :: BundleMetadata
  queries :: "NamedQuery list"
  documents :: MaybeDocumentMap
  documents_metadata :: "(DocumentKey \<times> BundledDocumentMetadata) list"
  bytes_loaded :: "64 word"
  current_document :: "DocumentKey option"

text \<open>
  Modelled from the spec: the constructor \<^verbatim>\<open>BundleLoader(callback, metadata)\<close> of
  bundle\_loader.h, which is not among the sources. The loader is created once per
  bundle with the immutable metadata; nothing is accumulated, no byte is counted and
  no document is pending.
\<close>

definition BundleLoader_init :: "BundleMetadata \<Rightarrow> BundleLoader" where
  "BundleLoader_init md =
     \<lparr>metadata = md, queries = [], documents = fmempty, documents_metadata = [],
      bytes_loaded = 0, current_document = None\<rparr>"

subsection \<open>The standard containers\<close>

text \<open>\<^verbatim>\<open>documents_.size()\<close>.\<close>

definition size_of :: "('k, 'v) fmap \<Rightarrow> nat" where
  "size_of m = fcard (fmdom m)"

text \<open>
  \<^verbatim>\<open>std::unordered_map::insert(value_type)\<close>: the pair is added only when the map has
  no entry with that key; an existing entry is left as it is.
\<close>

definition umap_insert :: "'k \<times> 'v \<Rightarrow> ('k \<times> 'v) list \<Rightarrow> ('k \<times> 'v) list" where
  "umap_insert kv m = (if fst kv \<in> fst ` set m then m else m @ [kv])"

text \<open>
  \<^verbatim>\<open>std::unordered_map::operator[]\<close> on a map of key sets: the value of the key,
  after a default-constructed (empty) \<^verbatim>\<open>DocumentKeySet\<close> was added for a key the map
  did not have. The second component is the map after the call.
\<close>

definition umap_subscript ::
  "'k \<Rightarrow> ('k \<times> 'a set) list \<Rightarrow> 'a set \<times> ('k \<times> 'a set) list" where
  "umap_subscript k m =
     (case map_of m k of
        Some v \<Rightarrow> (v, m)
      | None \<Rightarrow> ({}, m @ [(k, {})]))"

text \<open>\<^verbatim>\<open>m[k] = v\<close>: assignment through \<^verbatim>\<open>operator[]\<close>.\<close>

definition umap_assign :: "'k \<Rightarrow> 'a set \<Rightarrow> ('k \<times> 'a set) list \<Rightarrow> ('k \<times> 'a set) list" where
  "umap_assign k v m =
     (let m1 = snd (umap_subscript k m)
      in map (\<lambda>(k', v'). if k' = k then (k', v) else (k', v')) m1)"

subsection \<open>AddElement\<close>

definition AddElement ::
  "BundleLoader \<Rightarrow> BundleElement \<Rightarrow> 64 word
     \<Rightarrow> (LoadBundleTaskProgress option StatusOr \<times> BundleLoader) Outcome" where
  "AddElement this element byte_size =
     (if ElementType element = Metadata
      then HardAssertFailed ''Unexpected bundle metadata element.''
      else
        let before_count = size_of (documents this);
            handled =
              (case element of
                 NamedQueryElement named_query \<Rightarrow>
                   Inr (this\<lparr>queries := queries this @ [named_query]\<rparr>)
               | DocumentMetadataElement document_metadata \<Rightarrow>
                   let s1 = this\<lparr>current_document := Some (dm_key document_metadata)\<rparr>;
                       s2 = s1\<lparr>documents_metadata :=
                              umap_insert (dm_key document_metadata, document_metadata)
                                (documents_metadata s1)\<rparr>
                   in if \<not> dm_exists document_metadata
                      then Inr (s2\<lparr>documents :=
                                   fmupd (dm_key document_metadata)
                                     (NoDocument (dm_key document_metadata)
                                        (dm_read_time document_metadata) False)
                                     (documents s2),
                                 current_document := None\<rparr>)
                      else Inr s2
               | DocumentElement doc \<Rightarrow>
                   (case current_document this of
                      None \<Rightarrow>
                        Inl (FromErrno kErrorInvalidArgument
                          ''The document being added does not match the stored metadata.'')
                    | Some pending \<Rightarrow>
                        if doc_key doc \<noteq> pending
                        then Inl (FromErrno kErrorInvalidArgument
                          ''The document being added does not match the stored metadata.'')
                        else Inr (this\<lparr>documents :=
                                    fmupd (doc_key doc) (document doc) (documents this),
                                  current_document := None\<rparr>))
               | MetadataElement _ \<Rightarrow> Inr this)
        in case handled of
             Inl status \<Rightarrow> Returned (Inl status, this)
           | Inr s3 \<Rightarrow>
               let s4 = s3\<lparr>bytes_loaded := bytes_loaded s3 + byte_size\<rparr>
               in if before_count = size_of (documents s4)
                  then Returned (Inr None, s4)
                  else Returned
                    (Inr (Some \<lparr>progress_documents_loaded = size_of (documents s4),
                                progress_total_documents = total_documents (metadata s4),
                                progress_bytes_loaded = bytes_loaded s4,
                                progress_total_bytes = total_bytes (metadata s4),
                                progress_state = Running\<rparr>), s4))"

text \<open>
  The caller's loop: the elements of a bundle are passed to \<^verbatim>\<open>AddElement\<close> one at a
  time, each with its byte size, and the load is given up at the first error.
\<close>

fun AddElements ::
  "BundleLoader \<Rightarrow> (BundleElement \<times> 64 word) list \<Rightarrow> (Status + BundleLoader) Outcome" where
  "AddElements this [] = Returned (Inr this)"
| "AddElements this ((element, byte_size) # rest) =
     (case AddElement this element byte_size of
        HardAssertFailed msg \<Rightarrow> HardAssertFailed msg
      | Returned (Inl status, _) \<Rightarrow> Returned (Inl status)
      | Returned (Inr _, this') \<Rightarrow> AddElements this' rest)"

subsection \<open>GetQueryDocumentMapping\<close>

definition GetQueryDocumentMapping :: "BundleLoader \<Rightarrow> (string \<times> DocumentKeySet) list" where
  "GetQueryDocumentMapping this =
     (let result0 =
            fold (\<lambda>named_query result. umap_insert (query_name named_query, {}) result)
              (queries this) []
      in fold
           (\<lambda>doc_metadata result.
              let metadata = snd doc_metadata
              in fold
                   (\<lambda>query result.
                      let (keys, result1) = umap_subscript query result;
                          inserted = insert (dm_key metadata) keys
                      in umap_assign query inserted result1)
                   (dm_queries (snd doc_metadata)) result)
           (documents_metadata this) result0)"

subsection \<open>ApplyChanges\<close>

text \<open>
  The three methods of the persistence callback, as the calls the loader makes. What
  \<^verbatim>\<open>ApplyBundledDocuments\<close> returns is the callback's business: \<open>ApplyChanges\<close>
  takes it as the function \<open>apply_bundled_documents\<close>.
\<close>

datatype CallbackCall =
    ApplyBundledDocuments MaybeDocumentMap string
  | SaveNamedQuery NamedQuery DocumentKeySet
  | SaveBundle BundleMetadata

definition ApplyChanges ::
  "(MaybeDocumentMap \<Rightarrow> string \<Rightarrow> MaybeDocumentMap) \<Rightarrow> BundleLoader
     \<Rightarrow> MaybeDocumentMap StatusOr \<times> CallbackCall list" where
  "ApplyChanges apply_bundled_documents this =
     (if current_document this \<noteq> None
      then (Inl (FromErrno kErrorInvalidArgument
              ''Bundled documents end with a document metadata element instead of a document.''),
            [])
      else if total_documents (metadata this) \<noteq> size_of (documents this)
      then (Inl (FromErrno kErrorInvalidArgument
              ''Loaded documents count is not the same as in metadata.''),
            [])
      else
        let changes = apply_bundled_documents (documents this) (bundle_id (metadata this));
            calls1 = [ApplyBundledDocuments (documents this) (bundle_id (metadata this))];
            query_document_map = GetQueryDocumentMapping this;
            (query_document_map', calls2) =
              fold (\<lambda>named_query (m, calls).
                      let (matching_keys, m') = umap_subscript (query_name named_query) m
                      in (m', calls @ [SaveNamedQuery named_query matching_keys]))
                (queries this) (query_document_map, calls1);
            calls3 = calls2 @ [SaveBundle (metadata this)]
        in (Inr changes, calls3))"

subsection \<open>Notions the properties are stated with\<close>

text \<open>The progress value \<^verbatim>\<open>AddElement\<close> builds from the loader it leaves behind.\<close>

definition progress_of :: "BundleLoader \<Rightarrow> LoadBundleTaskProgress" where
  "progress_of s =
     \<lparr>progress_documents_loaded = size_of (documents s),
      progress_total_documents = total_documents (metadata s),
      progress_bytes_loaded = bytes_loaded s,
      progress_total_bytes = total_bytes (metadata s),
      progress_state = Running\<rparr>"

text \<open>
  The keys of the entries of a metadata index whose metadata lists the query \<open>n\<close>, and
  whether any entry lists it.
\<close>

definition keys_listing ::
  "(DocumentKey \<times> BundledDocumentMetadata) list \<Rightarrow> string \<Rightarrow> DocumentKeySet" where
  "keys_listing index n =
     set (map (\<lambda>e. dm_key (snd e)) (filter (\<lambda>e. n \<in> set (dm_queries (snd e))) index))"

definition listed :: "(DocumentKey \<times> BundledDocumentMetadata) list \<Rightarrow> string \<Rightarrow> bool" where
  "listed index n = (filter (\<lambda>e. n \<in> set (dm_queries (snd e))) index \<noteq> [])"

definition keys_or_empty :: "'a set option \<Rightarrow> 'a set" where
  "keys_or_empty x = (case x of None \<Rightarrow> {} | Some s \<Rightarrow> s)"

text \<open>The body of the inner loop of \<^verbatim>\<open>GetQueryDocumentMapping\<close>, named for the proofs.\<close>

definition add_key :: "'a \<Rightarrow> 'k \<Rightarrow> ('k \<times> 'a set) list \<Rightarrow> ('k \<times> 'a set) list" where
  "add_key key query result =
     (let (keys, result1) = umap_subscript query result;
          inserted = insert key keys
      in umap_assign query inserted result1)"

subsection \<open>A bundle to run the loader on\<close>

text \<open>
  A bundle of two documents: the query \<open>q1\<close>, the document \<open>coll/A\<close> that matches it,
  and the deleted document \<open>coll/B\<close>.
\<close>

definition example_metadata :: BundleMetadata where
  "example_metadata = \<lparr>bundle_id = ''bundle-1'', total_documents = 2, total_bytes = 100\<rparr>"

definition query_q1 :: NamedQuery where
  "query_q1 = \<lparr>query_name = ''q1'', bundled_query = ''select * from coll''\<rparr>"

definition query_q2 :: NamedQuery where
  "query_q2 = \<lparr>query_name = ''q2'', bundled_query = ''select * from coll limit 1''\<rparr>"

definition metadata_A :: BundledDocumentMetadata where
  "metadata_A =
     \<lparr>dm_key = ''coll/A'', dm_read_time = 5, dm_exists = True, dm_queries = [''q1'']\<rparr>"

definition metadata_A_again :: BundledDocumentMetadata where
  "metadata_A_again =
     \<lparr>dm_key = ''coll/A'', dm_read_time = 9, dm_exists = True, dm_queries = [''q2'']\<rparr>"

definition document_A :: BundleDocument where
  "document_A = \<lparr>doc_key = ''coll/A'', doc_version = 5, doc_data = ''X''\<rparr>"

definition metadata_B :: BundledDocumentMetadata where
  "metadata_B =
     \<lparr>dm_key = ''coll/B'', dm_read_time = 7, dm_exists = False, dm_queries = []\<rparr>"

definition metadata_C :: BundledDocumentMetadata where
  "metadata_C =
     \<lparr>dm_key = ''coll/C'', dm_read_time = 8, dm_exists = True, dm_queries = [''q1'']\<rparr>"

definition document_C :: BundleDocument where
  "document_C = \<lparr>doc_key = ''coll/C'', doc_version = 8, doc_data = ''Z''\<rparr>"

definition example_bundle :: "(BundleElement \<times> 64 word) list" where
  "example_bundle =
     [(NamedQueryElement query_q1, 30),
      (DocumentMetadataElement metadata_A, 20),
      (DocumentElement document_A, 40),
      (DocumentMetadataElement metadata_B, 10)]"

text \<open>The loader after \<open>example_bundle\<close>.\<close>

definition example_loaded :: BundleLoader where
  "example_loaded =
     \<lparr>metadata = example_metadata,
      queries = [query_q1],
      documents =
        fmupd ''coll/B'' (NoDocument ''coll/B'' 7 False)
          (fmupd ''coll/A'' (ModelDocument ''coll/A'' 5 ''X'') fmempty),
      documents_metadata = [(''coll/A'', metadata_A), (''coll/B'', metadata_B)],
      bytes_loaded = 100,
      current_document = None\<rparr>"

text \<open>A loader that waits for the document of \<open>coll/A\<close>.\<close>

definition example_pending :: BundleLoader where
  "example_pending =
     \<lparr>metadata = example_metadata,
      queries = [query_q1],
      documents = fmempty,
      documents_metadata = [(''coll/A'', metadata_A)],
      bytes_loaded = 50,
      current_document = Some ''coll/A''\<rparr>"

text \<open>
  A loader whose index lists \<open>q1\<close> and \<open>q3\<close> for \<open>coll/A\<close>, with the queries \<open>q1\<close> and
  \<open>q2\<close> received.
\<close>

definition example_index :: BundleLoader where
  "example_index =
     \<lparr>metadata = example_metadata,
      queries = [query_q1, query_q2],
      documents = fmempty,
      documents_metadata =
        [(''coll/A'', \<lparr>dm_key = ''coll/A'', dm_read_time = 5, dm_exists = True,
                        dm_queries = [''q1'', ''q3'']\<rparr>),
         (''coll/B'', metadata_B)],
      bytes_loaded = 0,
      current_document = None\<rparr>"

text \<open>A bundle that declares one document.\<close>

definition single_metadata :: BundleMetadata where
  "single_metadata = \<lparr>bundle_id = ''bundle-2'', total_documents = 1, total_bytes = 30\<rparr>"

section \<open>Properties\<close>

subsection \<open>The containers\<close>

lemma size_of_fmupd:
  "size_of (fmupd k v m) = (if k |\<in>| fmdom m then size_of m else Suc (size_of m))"
  by (simp add: size_of_def fcard_finsert_if)

lemma size_of_fmempty: "size_of fmempty = 0"
  by (simp add: size_of_def fcard_fempty)

lemma in_fst_set_iff: "k \<in> fst ` set m \<longleftrightarrow> map_of m k \<noteq> None"
  by (simp add: map_of_eq_None_iff)

lemma map_of_umap_insert:
  "map_of (umap_insert (k, v) m) n =
     (if n = k \<and> map_of m k = None then Some v else map_of m n)"
  by (auto simp: umap_insert_def in_fst_set_iff map_add_def split: option.splits)

lemma umap_insert_present:
  "map_of m k = Some v \<Longrightarrow> umap_insert (k, w) m = m"
  by (simp add: umap_insert_def in_fst_set_iff)

lemma umap_insert_absent:
  "map_of m k = None \<Longrightarrow> umap_insert (k, w) m = m @ [(k, w)]"
  by (simp add: umap_insert_def in_fst_set_iff)

lemma fst_umap_subscript:
  "fst (umap_subscript k m) = keys_or_empty (map_of m k)"
  by (simp add: umap_subscript_def keys_or_empty_def split: option.splits)

lemma map_of_snd_umap_subscript:
  "map_of (snd (umap_subscript k m)) n =
     (if n = k \<and> map_of m k = None then Some {} else map_of m n)"
  by (auto simp: umap_subscript_def map_add_def split: option.splits)

lemma umap_subscript_present:
  "map_of m k = Some v \<Longrightarrow> umap_subscript k m = (v, m)"
  by (simp add: umap_subscript_def)

lemma map_of_map_replace:
  "map_of (map (\<lambda>(k', v'). if k' = k then (k', v) else (k', v')) m) n =
     (if n = k then (case map_of m k of None \<Rightarrow> None | Some _ \<Rightarrow> Some v) else map_of m n)"
  by (induction m) (auto split: option.splits)

lemma map_of_umap_assign:
  "map_of (umap_assign k v m) n = (if n = k then Some v else map_of m n)"
  by (simp add: umap_assign_def Let_def map_of_map_replace map_of_snd_umap_subscript
      split: option.splits)

subsection \<open>The query-document mapping\<close>

lemma map_of_add_key:
  "map_of (add_key key query result) n =
     (if n = query then Some (insert key (keys_or_empty (map_of result n)))
      else map_of result n)"
  by (simp add: add_key_def split_beta Let_def map_of_umap_assign fst_umap_subscript
      map_of_snd_umap_subscript)

lemma map_of_fold_add_key:
  "map_of (fold (add_key key) qs result) n =
     (if n \<in> set qs then Some (insert key (keys_or_empty (map_of result n)))
      else map_of result n)"
  by (induction qs arbitrary: result) (auto simp: map_of_add_key keys_or_empty_def)

lemma map_of_fold_documents_metadata:
  "map_of (fold (\<lambda>e. fold (add_key (dm_key (snd e))) (dm_queries (snd e))) dms result) n =
     (if listed dms n
      then Some (keys_or_empty (map_of result n) \<union> keys_listing dms n)
      else map_of result n)"
proof (induction dms arbitrary: result)
  case Nil
  show ?case by (simp add: listed_def)
next
  case (Cons e dms)
  show ?case
    by (simp add: Cons.IH map_of_fold_add_key)
       (auto simp: listed_def keys_listing_def keys_or_empty_def)
qed

lemma map_of_fold_queries:
  "map_of (fold (\<lambda>named_query. umap_insert (query_name named_query, {})) qs acc) n =
     (case map_of acc n of
        Some v \<Rightarrow> Some v
      | None \<Rightarrow> if n \<in> query_name ` set qs then Some {} else None)"
  by (induction qs arbitrary: acc) (auto simp: map_of_umap_insert split: option.splits)

lemma GetQueryDocumentMapping_add_key:
  "GetQueryDocumentMapping this =
     fold (\<lambda>e. fold (add_key (dm_key (snd e))) (dm_queries (snd e))) (documents_metadata this)
       (fold (\<lambda>q. umap_insert (query_name q, {})) (queries this) [])"
  by (simp add: GetQueryDocumentMapping_def add_key_def [abs_def] Let_def)

lemma map_of_GetQueryDocumentMapping:
  "map_of (GetQueryDocumentMapping this) n =
     (if n \<in> query_name ` set (queries this) \<or> listed (documents_metadata this) n
      then Some (keys_listing (documents_metadata this) n)
      else None)"
  unfolding GetQueryDocumentMapping_add_key map_of_fold_documents_metadata map_of_fold_queries
  by (auto simp: keys_or_empty_def keys_listing_def listed_def filter_empty_conv)

lemma keys_listing_eq:
  "keys_listing index n = {dm_key m |k m. (k, m) \<in> set index \<and> n \<in> set (dm_queries m)}"
proof -
  have "keys_listing index n =
      (\<lambda>e. dm_key (snd e)) ` {e \<in> set index. n \<in> set (dm_queries (snd e))}"
    by (simp add: keys_listing_def)
  also have "\<dots> = {dm_key m |k m. (k, m) \<in> set index \<and> n \<in> set (dm_queries m)}"
    by force
  finally show ?thesis .
qed

lemma listed_iff:
  "listed index n \<longleftrightarrow> (\<exists>k m. (k, m) \<in> set index \<and> n \<in> set (dm_queries m))"
  by (force simp: listed_def filter_empty_conv)

text \<open>
  The mapping in terms of the loader's members: a name is a key exactly when it is the
  name of an element of \<open>queries\<close> or an entry of \<open>documents_metadata\<close> lists it, and its
  value is the set of the document keys of the entries that list it. Only the sets of
  queries and of entries matter, not the order in which the loops visit them.
\<close>

lemma GetQueryDocumentMapping_exact:
  "map_of (GetQueryDocumentMapping this) name =
     (if name \<in> query_name ` set (queries this) \<or>
         (\<exists>k m. (k, m) \<in> set (documents_metadata this) \<and> name \<in> set (dm_queries m))
      then Some {dm_key m |k m.
                   (k, m) \<in> set (documents_metadata this) \<and> name \<in> set (dm_queries m)}
      else None)"
  by (simp add: map_of_GetQueryDocumentMapping keys_listing_eq listed_iff)

lemma GetQueryDocumentMapping_exact_example:
  "map_of (GetQueryDocumentMapping example_index) ''q1'' = Some {''coll/A''} \<and>
   map_of (GetQueryDocumentMapping example_index) ''q2'' = Some {} \<and>
   map_of (GetQueryDocumentMapping example_index) ''q3'' = Some {''coll/A''} \<and>
   map_of (GetQueryDocumentMapping example_index) ''q4'' = None"
proof -
  note exact = GetQueryDocumentMapping_exact
      [of example_index, unfolded keys_listing_eq [symmetric] listed_iff [symmetric]]
  from exact [of "''q1''"] exact [of "''q2''"] exact [of "''q3''"] exact [of "''q4''"]
  show ?thesis
    by (simp add: example_index_def query_q1_def query_q2_def metadata_B_def
        keys_listing_def listed_def)
qed

subsection \<open>AddElement, one element kind at a time\<close>

lemma AddElement_Metadata:
  "AddElement this (MetadataElement md) b =
     HardAssertFailed ''Unexpected bundle metadata element.''"
  by (simp add: AddElement_def)

lemma AddElement_NamedQuery:
  "AddElement this (NamedQueryElement q) b =
     Returned (Inr None,
       this\<lparr>queries := queries this @ [q], bytes_loaded := bytes_loaded this + b\<rparr>)"
  by (simp add: AddElement_def Let_def)

lemma AddElement_DocumentMetadata_exists:
  "dm_exists m \<Longrightarrow>
   AddElement this (DocumentMetadataElement m) b =
     Returned (Inr None,
       this\<lparr>current_document := Some (dm_key m),
            documents_metadata := umap_insert (dm_key m, m) (documents_metadata this),
            bytes_loaded := bytes_loaded this + b\<rparr>)"
  by (simp add: AddElement_def Let_def)

lemma AddElement_DocumentMetadata_deleted:
  "\<not> dm_exists m \<Longrightarrow>
   AddElement this (DocumentMetadataElement m) b =
     (let this' = this\<lparr>current_document := None,
            documents_metadata := umap_insert (dm_key m, m) (documents_metadata this),
            documents :=
              fmupd (dm_key m) (NoDocument (dm_key m) (dm_read_time m) False) (documents this),
            bytes_loaded := bytes_loaded this + b\<rparr>
      in Returned
           (if dm_key m |\<in>| fmdom (documents this) then Inr None
            else Inr (Some (progress_of this')), this'))"
  by (simp add: AddElement_def Let_def size_of_fmupd progress_of_def)

lemma AddElement_Document_mismatch:
  "current_document this \<noteq> Some (doc_key d) \<Longrightarrow>
   AddElement this (DocumentElement d) b =
     Returned (Inl (FromErrno kErrorInvalidArgument
        ''The document being added does not match the stored metadata.''), this)"
  by (auto simp add: AddElement_def Let_def split: option.splits)

lemma AddElement_Document_match:
  "current_document this = Some (doc_key d) \<Longrightarrow>
   AddElement this (DocumentElement d) b =
     (let this' = this\<lparr>current_document := None,
            documents := fmupd (doc_key d) (document d) (documents this),
            bytes_loaded := bytes_loaded this + b\<rparr>
      in Returned
           (if doc_key d |\<in>| fmdom (documents this) then Inr None
            else Inr (Some (progress_of this')), this'))"
  by (simp add: AddElement_def Let_def size_of_fmupd progress_of_def)

text \<open>
  The metadata index after a \<^verbatim>\<open>DocumentMetadata\<close> element: an entry the key already
  has stays, whatever the new metadata is.
\<close>

lemma AddElement_DocumentMetadata_index:
  assumes "AddElement this (DocumentMetadataElement m) b = Returned (r, this')"
  shows "documents_metadata this' =
      (case map_of (documents_metadata this) (dm_key m) of
         Some m0 \<Rightarrow> documents_metadata this
       | None \<Rightarrow> documents_metadata this @ [(dm_key m, m)])"
  using assms
  by (cases "dm_exists m")
     (auto simp: AddElement_DocumentMetadata_exists AddElement_DocumentMetadata_deleted Let_def
        umap_insert_present umap_insert_absent split: option.splits)

lemma AddElement_accepted_bytes:
  assumes "AddElement this e b = Returned (Inr r, this')"
  shows "bytes_loaded this' = bytes_loaded this + b"
proof (cases e)
  case (MetadataElement md)
  with assms show ?thesis by (simp add: AddElement_Metadata)
next
  case (NamedQueryElement q)
  with assms show ?thesis by (auto simp: AddElement_NamedQuery)
next
  case (DocumentMetadataElement m)
  with assms show ?thesis
    by (cases "dm_exists m")
       (auto simp: AddElement_DocumentMetadata_exists AddElement_DocumentMetadata_deleted Let_def)
next
  case (DocumentElement d)
  with assms show ?thesis
    by (cases "current_document this = Some (doc_key d)")
       (auto simp: AddElement_Document_mismatch AddElement_Document_match Let_def)
qed

lemma AddElement_rejected_unchanged:
  assumes "AddElement this e b = Returned (Inl status, this')"
  shows "this' = this"
proof (cases e)
  case (MetadataElement md)
  with assms show ?thesis by (simp add: AddElement_Metadata)
next
  case (NamedQueryElement q)
  with assms show ?thesis by (simp add: AddElement_NamedQuery)
next
  case (DocumentMetadataElement m)
  with assms show ?thesis
    by (cases "dm_exists m")
       (auto simp: AddElement_DocumentMetadata_exists AddElement_DocumentMetadata_deleted Let_def
          split: if_splits)
next
  case (DocumentElement d)
  with assms show ?thesis
    by (cases "current_document this = Some (doc_key d)")
       (auto simp: AddElement_Document_mismatch AddElement_Document_match Let_def
          split: if_splits)
qed

lemma AddElements_accepted_bytes:
  "AddElements this es = Returned (Inr this') \<Longrightarrow>
     bytes_loaded this' = bytes_loaded this + sum_list (map snd es)"
proof (induction es arbitrary: this)
  case Nil
  then show ?case by simp
next
  case (Cons eb es)
  obtain e b where eb: "eb = (e, b)" by (cases eb)
  from Cons.prems eb obtain r s1 where
    step: "AddElement this e b = Returned (Inr r, s1)" and
    rest: "AddElements s1 es = Returned (Inr this')"
    by (auto split: Outcome.splits sum.splits prod.splits)
  from Cons.IH [OF rest] AddElement_accepted_bytes [OF step] eb show ?case
    by (simp add: add.assoc)
qed

lemma unat_sum_list:
  "unat (a + sum_list ws) = (unat a + sum_list (map unat ws)) mod 2 ^ 64" for a :: "64 word"
proof (induction ws arbitrary: a)
  case Nil
  have "unat a < 2 ^ 64" using unsigned_less [of a] by simp
  then show ?case by simp
next
  case (Cons w ws)
  have "unat (a + sum_list (w # ws)) = unat ((a + w) + sum_list ws)"
    by (simp add: add.assoc)
  also have "\<dots> = (unat (a + w) + sum_list (map unat ws)) mod 2 ^ 64"
    by (rule Cons.IH)
  also have "\<dots> = ((unat a + unat w) mod 2 ^ 64 + sum_list (map unat ws)) mod 2 ^ 64"
    by (simp add: unat_word_ariths)
  also have "\<dots> = (unat a + sum_list (map unat (w # ws))) mod 2 ^ 64"
    by (simp add: mod_add_left_eq add.assoc)
  finally show ?case .
qed

subsection \<open>ApplyChanges: the calls of the loop over the queries\<close>

lemma fold_SaveNamedQuery:
  "\<forall>q \<in> set qs. map_of m (query_name q) = Some (f (query_name q)) \<Longrightarrow>
   fold (\<lambda>named_query (m, calls).
           case umap_subscript (query_name named_query) m of
             (keys, m') \<Rightarrow> (m', calls @ [SaveNamedQuery named_query keys]))
     qs (m, calls) =
   (m, calls @ map (\<lambda>q. SaveNamedQuery q (f (query_name q))) qs)"
  by (induction qs arbitrary: calls) (simp_all add: umap_subscript_present)

subsection \<open>The example bundle\<close>

lemma example_bundle_loads:
  "AddElements (BundleLoader_init example_metadata) example_bundle = Returned (Inr example_loaded)"
  by (simp add: example_bundle_def example_loaded_def BundleLoader_init_def AddElement_def
      Let_def size_of_def umap_insert_def metadata_A_def metadata_B_def document_A_def
      document_def query_q1_def)

section \<open>The claims\<close>

subsection \<open>C1\<close>

text \<open>
  Claim C1. \<^verbatim>\<open>ApplyChanges\<close> fails with an invalid-argument error when the pending
  marker is still set, and fails with an invalid-argument error when the number of
  accumulated documents differs from the declared total. Whenever it fails, the error is
  invalid-argument and none of \<^verbatim>\<open>ApplyBundledDocuments\<close>, \<^verbatim>\<open>SaveNamedQuery\<close>,
  \<^verbatim>\<open>SaveBundle\<close> has been called: the list of calls is empty.
\<close>

theorem ApplyChanges_failure_persists_nothing:
  "(current_document this \<noteq> None \<longrightarrow>
      ApplyChanges cb this =
        (Inl (FromErrno kErrorInvalidArgument
           ''Bundled documents end with a document metadata element instead of a document.''),
         [])) \<and>
   (size_of (documents this) \<noteq> total_documents (metadata this) \<longrightarrow>
      (\<exists>msg. ApplyChanges cb this = (Inl (FromErrno kErrorInvalidArgument msg), []))) \<and>
   (\<forall>status calls. ApplyChanges cb this = (Inl status, calls) \<longrightarrow>
      code status = kErrorInvalidArgument \<and> calls = [])"
  by (auto simp: ApplyChanges_def Let_def split_beta split: if_splits)

theorem ApplyChanges_failure_persists_nothing_witness:
  "current_document example_pending \<noteq> None \<and>
   ApplyChanges (\<lambda>docs id. docs) example_pending =
     (Inl (FromErrno kErrorInvalidArgument
        ''Bundled documents end with a document metadata element instead of a document.''),
      []) \<and>
   size_of (documents (BundleLoader_init example_metadata)) \<noteq>
     total_documents (metadata (BundleLoader_init example_metadata)) \<and>
   (\<exists>msg. ApplyChanges (\<lambda>docs id. docs) (BundleLoader_init example_metadata) =
      (Inl (FromErrno kErrorInvalidArgument msg), []))"
proof -
  have pending: "current_document example_pending \<noteq> None"
    by (simp add: example_pending_def)
  have short: "size_of (documents (BundleLoader_init example_metadata)) \<noteq>
      total_documents (metadata (BundleLoader_init example_metadata))"
    by (simp add: BundleLoader_init_def example_metadata_def size_of_fmempty)
  from pending short
    ApplyChanges_failure_persists_nothing [of example_pending "\<lambda>docs id. docs"]
    ApplyChanges_failure_persists_nothing
      [of "BundleLoader_init example_metadata" "\<lambda>docs id. docs"]
  show ?thesis by blast
qed

subsection \<open>C2\<close>

text \<open>
  Claim C2. For a \<^verbatim>\<open>Document\<close> element: when the pending marker is empty or holds
  another key, \<^verbatim>\<open>AddElement\<close> returns an invalid-argument error and the loader, its
  accumulated documents included, is as before; when the marker is the document's key,
  the document is stored under its key in the accumulated documents and the marker is
  cleared.
\<close>

theorem AddElement_Document_checks_pending:
  "(current_document this = None \<or>
      (\<exists>pending. current_document this = Some pending \<and> pending \<noteq> doc_key d) \<longrightarrow>
      AddElement this (DocumentElement d) b =
        Returned (Inl (FromErrno kErrorInvalidArgument
           ''The document being added does not match the stored metadata.''), this)) \<and>
   (current_document this = Some (doc_key d) \<longrightarrow>
      (\<exists>r this'. AddElement this (DocumentElement d) b = Returned (Inr r, this') \<and>
         documents this' = fmupd (doc_key d) (document d) (documents this) \<and>
         fmlookup (documents this') (doc_key d) = Some (document d) \<and>
         current_document this' = None))"
proof (cases "current_document this = Some (doc_key d)")
  case True
  then show ?thesis by (simp add: AddElement_Document_match Let_def)
next
  case False
  then show ?thesis by (auto simp: AddElement_Document_mismatch)
qed

theorem AddElement_Document_checks_pending_witness:
  "current_document (BundleLoader_init example_metadata) = None \<and>
   AddElement (BundleLoader_init example_metadata) (DocumentElement document_A) 40 =
     Returned (Inl (FromErrno kErrorInvalidArgument
        ''The document being added does not match the stored metadata.''),
       BundleLoader_init example_metadata) \<and>
   current_document example_pending = Some (doc_key document_A) \<and>
   (\<exists>r this'. AddElement example_pending (DocumentElement document_A) 40 =
        Returned (Inr r, this') \<and>
      fmlookup (documents this') ''coll/A'' = Some (ModelDocument ''coll/A'' 5 ''X'') \<and>
      current_document this' = None)"
proof -
  have empty: "current_document (BundleLoader_init example_metadata) = None"
    by (simp add: BundleLoader_init_def)
  have pending: "current_document example_pending = Some (doc_key document_A)"
    by (simp add: example_pending_def document_A_def)
  have doc: "doc_key document_A = ''coll/A''"
      "document document_A = ModelDocument ''coll/A'' 5 ''X''"
    by (simp_all add: document_A_def document_def)
  from empty pending
    AddElement_Document_checks_pending
      [of "BundleLoader_init example_metadata" document_A 40]
    AddElement_Document_checks_pending [of example_pending document_A 40]
  show ?thesis unfolding doc by blast
qed

subsection \<open>C3\<close>

text \<open>
  Claim C3 says that a \<^verbatim>\<open>DocumentMetadata\<close> element for a key the metadata index
  already has replaces the entry. The index is filled with
  \<^verbatim>\<open>documents_metadata_.insert({key, metadata})\<close>, which leaves an existing entry alone.
  After the metadata of \<open>coll/A\<close> that lists \<open>q1\<close> and then another metadata of
  \<open>coll/A\<close> that lists \<open>q2\<close>, both accepted, the index still maps \<open>coll/A\<close> to the
  first, and the query-document mapping has \<open>coll/A\<close> under \<open>q1\<close> and nothing under
  \<open>q2\<close>; the pending marker, set by the same branch, is the key of the second element.
\<close>

theorem documents_metadata_keeps_first_entry:
  "\<exists>this'.
     AddElements (BundleLoader_init example_metadata)
       [(DocumentMetadataElement metadata_A, 20),
        (DocumentMetadataElement metadata_A_again, 20)] = Returned (Inr this') \<and>
     dm_key metadata_A_again = dm_key metadata_A \<and>
     metadata_A_again \<noteq> metadata_A \<and>
     map_of (documents_metadata this') (dm_key metadata_A) = Some metadata_A \<and>
     map_of (GetQueryDocumentMapping this') ''q1'' = Some {''coll/A''} \<and>
     map_of (GetQueryDocumentMapping this') ''q2'' = None"
  by (simp add: BundleLoader_init_def AddElement_def Let_def umap_insert_def
      metadata_A_def metadata_A_again_def map_of_GetQueryDocumentMapping listed_def
      keys_listing_def)

subsection \<open>C4\<close>

text \<open>
  Claim C4 says that every call of \<^verbatim>\<open>AddElement\<close> adds the byte size to the counter,
  whatever the element. A \<^verbatim>\<open>Document\<close> element that does not match the pending marker
  is rejected before the counter is touched: on a fresh loader, the document \<open>coll/A\<close>
  of 40 bytes is refused and the counter stays at 0.
\<close>

theorem AddElement_rejected_document_bytes_not_counted:
  "AddElement (BundleLoader_init example_metadata) (DocumentElement document_A) 40 =
     Returned (Inl (FromErrno kErrorInvalidArgument
        ''The document being added does not match the stored metadata.''),
       BundleLoader_init example_metadata) \<and>
   bytes_loaded (BundleLoader_init example_metadata) = 0 \<and>
   bytes_loaded (BundleLoader_init example_metadata) \<noteq>
     bytes_loaded (BundleLoader_init example_metadata) + 40"
proof -
  have "current_document (BundleLoader_init example_metadata) \<noteq> Some (doc_key document_A)"
    by (simp add: BundleLoader_init_def)
  then show ?thesis
    by (simp add: AddElement_Document_mismatch) (simp add: BundleLoader_init_def)
qed

text \<open>
  Claim C4, amended. When \<^verbatim>\<open>AddElement\<close> accepts an element (it returns without an
  error), the counter is the old one plus the byte size, in \<^verbatim>\<open>uint64_t\<close> arithmetic;
  when it rejects the element, the counter is as before. So after a sequence of elements
  that are all accepted, in whatever order they came, the counter is the initial value
  plus the sum of their byte sizes, modulo \<open>2 ^ 64\<close>.
\<close>

theorem AddElement_bytes_loaded_accepted:
  "(\<forall>r this'. AddElement this e b = Returned (Inr r, this') \<longrightarrow>
      bytes_loaded this' = bytes_loaded this + b) \<and>
   (\<forall>status this'. AddElement this e b = Returned (Inl status, this') \<longrightarrow>
      bytes_loaded this' = bytes_loaded this) \<and>
   (\<forall>this'. AddElements this es = Returned (Inr this') \<longrightarrow>
      bytes_loaded this' = bytes_loaded this + sum_list (map snd es) \<and>
      unat (bytes_loaded this') =
        (unat (bytes_loaded this) + sum_list (map unat (map snd es))) mod 2 ^ 64)"
proof (intro conjI allI impI)
  fix r this'
  assume "AddElement this e b = Returned (Inr r, this')"
  then show "bytes_loaded this' = bytes_loaded this + b"
    by (rule AddElement_accepted_bytes)
next
  fix status this'
  assume "AddElement this e b = Returned (Inl status, this')"
  then have "this' = this"
    by (rule AddElement_rejected_unchanged)
  then show "bytes_loaded this' = bytes_loaded this"
    by simp
next
  fix this'
  assume "AddElements this es = Returned (Inr this')"
  then show sum: "bytes_loaded this' = bytes_loaded this + sum_list (map snd es)"
    by (rule AddElements_accepted_bytes)
  show "unat (bytes_loaded this') =
      (unat (bytes_loaded this) + sum_list (map unat (map snd es))) mod 2 ^ 64"
    unfolding sum by (rule unat_sum_list)
qed

theorem AddElement_bytes_loaded_accepted_witness:
  "(\<exists>this'. AddElement (BundleLoader_init example_metadata) (NamedQueryElement query_q1) 30 =
        Returned (Inr None, this') \<and>
      bytes_loaded this' = 30) \<and>
   AddElement (BundleLoader_init example_metadata) (DocumentElement document_A) 40 =
     Returned (Inl (FromErrno kErrorInvalidArgument
        ''The document being added does not match the stored metadata.''),
       BundleLoader_init example_metadata) \<and>
   bytes_loaded (BundleLoader_init example_metadata) = 0 \<and>
   AddElements (BundleLoader_init example_metadata) example_bundle =
     Returned (Inr example_loaded) \<and>
   bytes_loaded example_loaded = 0 + (30 + 20 + 40 + 10) \<and>
   unat (bytes_loaded example_loaded) = 100"
proof -
  have sizes: "sum_list (map snd example_bundle) = 100"
      "sum_list (map unat (map snd example_bundle)) = 100"
    by (simp_all add: example_bundle_def)
  have start: "bytes_loaded (BundleLoader_init example_metadata) = 0"
    by (simp add: BundleLoader_init_def)
  have query: "\<exists>this'.
      AddElement (BundleLoader_init example_metadata) (NamedQueryElement query_q1) 30 =
        Returned (Inr None, this')"
    by (simp add: AddElement_NamedQuery)
  have stray: "current_document (BundleLoader_init example_metadata) \<noteq>
      Some (doc_key document_A)"
    by (simp add: BundleLoader_init_def)
  note rejected = AddElement_Document_mismatch [OF stray, of 40]
  note step = AddElement_bytes_loaded_accepted
      [of "BundleLoader_init example_metadata" "NamedQueryElement query_q1" 30 example_bundle]
  note reject = AddElement_bytes_loaded_accepted
      [of "BundleLoader_init example_metadata" "DocumentElement document_A" 40 "[]"]
  from query step have first: "\<exists>this'.
      AddElement (BundleLoader_init example_metadata) (NamedQueryElement query_q1) 30 =
        Returned (Inr None, this') \<and> bytes_loaded this' = 30"
    unfolding start by fastforce
  from rejected reject have second:
    "bytes_loaded (BundleLoader_init example_metadata) =
       bytes_loaded (BundleLoader_init example_metadata)"
    by blast
  from example_bundle_loads step
  have "bytes_loaded example_loaded =
      bytes_loaded (BundleLoader_init example_metadata) + sum_list (map snd example_bundle)"
    and "unat (bytes_loaded example_loaded) =
      (unat (bytes_loaded (BundleLoader_init example_metadata)) +
       sum_list (map unat (map snd example_bundle))) mod 2 ^ 64"
    by blast+
  then show ?thesis
    using example_bundle_loads first rejected by (simp add: sizes start)
qed

subsection \<open>C5\<close>

text \<open>
  Claim C5. A call of \<^verbatim>\<open>AddElement\<close> that returns gives a progress value exactly when
  the number of accumulated documents is larger after the call than before; the progress
  value holds the number of documents loaded, the declared total of documents, the bytes
  loaded, the declared total of bytes, and the state running, all read after the call. A
  \<^verbatim>\<open>NamedQuery\<close> element always returns without a progress value.
\<close>

theorem AddElement_progress_iff_count_grows:
  "(\<forall>r this'. AddElement this e b = Returned (r, this') \<longrightarrow>
      ((\<exists>p. r = Inr (Some p)) \<longleftrightarrow> size_of (documents this) < size_of (documents this')) \<and>
      (\<forall>p. r = Inr (Some p) \<longrightarrow>
         p = \<lparr>progress_documents_loaded = size_of (documents this'),
              progress_total_documents = total_documents (metadata this'),
              progress_bytes_loaded = bytes_loaded this',
              progress_total_bytes = total_bytes (metadata this'),
              progress_state = Running\<rparr>)) \<and>
   (ElementType e = NamedQuery \<longrightarrow>
      (\<exists>this'. AddElement this e b = Returned (Inr None, this')))"
proof (cases e)
  case (MetadataElement md)
  then show ?thesis by (simp add: AddElement_Metadata)
next
  case (NamedQueryElement q)
  then show ?thesis by (simp add: AddElement_NamedQuery)
next
  case (DocumentMetadataElement m)
  then show ?thesis
    by (cases "dm_exists m")
       (auto simp: AddElement_DocumentMetadata_exists AddElement_DocumentMetadata_deleted
          Let_def size_of_fmupd progress_of_def)
next
  case (DocumentElement d)
  then show ?thesis
    by (cases "current_document this = Some (doc_key d)")
       (auto simp: AddElement_Document_mismatch AddElement_Document_match
          Let_def size_of_fmupd progress_of_def)
qed

theorem AddElement_progress_iff_count_grows_witness:
  "(\<exists>this'. AddElement example_pending (DocumentElement document_A) 40 =
        Returned
          (Inr (Some \<lparr>progress_documents_loaded = 1, progress_total_documents = 2,
                       progress_bytes_loaded = 90, progress_total_bytes = 100,
                       progress_state = Running\<rparr>), this') \<and>
      size_of (documents example_pending) < size_of (documents this')) \<and>
   ElementType (NamedQueryElement query_q1) = NamedQuery \<and>
   (\<exists>this'. AddElement example_pending (NamedQueryElement query_q1) 30 =
        Returned (Inr None, this') \<and>
      \<not> size_of (documents example_pending) < size_of (documents this'))"
proof -
  have pending: "current_document example_pending = Some (doc_key document_A)"
    by (simp add: example_pending_def document_A_def)
  have fresh: "\<not> doc_key document_A |\<in>| fmdom (documents example_pending)"
    by (simp add: example_pending_def)
  obtain r this' where
    ret: "AddElement example_pending (DocumentElement document_A) 40 = Returned (r, this')"
    and r: "r = Inr (Some (progress_of this'))"
    and this': "this' = example_pending\<lparr>current_document := None,
        documents :=
          fmupd (doc_key document_A) (document document_A) (documents example_pending),
        bytes_loaded := bytes_loaded example_pending + 40\<rparr>"
    using fresh by (simp add: AddElement_Document_match [OF pending] Let_def)
  have snapshot: "progress_of this' =
      \<lparr>progress_documents_loaded = 1, progress_total_documents = 2,
        progress_bytes_loaded = 90, progress_total_bytes = 100,
        progress_state = Running\<rparr>"
    by (simp add: this' progress_of_def size_of_fmupd size_of_fmempty example_pending_def
        example_metadata_def)
  from ret r AddElement_progress_iff_count_grows
      [of example_pending "DocumentElement document_A" 40]
  have grows: "size_of (documents example_pending) < size_of (documents this')"
    by blast
  obtain this'' where
    query: "AddElement example_pending (NamedQueryElement query_q1) 30 =
      Returned (Inr None, this'')"
    using AddElement_progress_iff_count_grows
      [of example_pending "NamedQueryElement query_q1" 30]
    by auto
  from query AddElement_progress_iff_count_grows
      [of example_pending "NamedQueryElement query_q1" 30]
  have same: "\<not> size_of (documents example_pending) < size_of (documents this'')"
    by blast
  from ret r snapshot grows query same show ?thesis
    by auto
qed

subsection \<open>C6\<close>


subsection \<open>C7\<close>

text \<open>
  Claim C7. A \<^verbatim>\<open>DocumentMetadata\<close> element whose existence flag is false is accepted,
  and after the call the accumulated documents are the old ones with the tombstone
  \<^verbatim>\<open>NoDocument(key, read_time, false)\<close> stored under the element's key, and the pending
  marker is empty: \<^verbatim>\<open>ApplyChanges\<close> does not fail for a pending document, so no
  \<^verbatim>\<open>Document\<close> element has to follow.
\<close>

theorem AddElement_deleted_document_tombstone:
  assumes "\<not> dm_exists m"
  shows "\<exists>r this'. AddElement this (DocumentMetadataElement m) b = Returned (Inr r, this') \<and>
           documents this' =
             fmupd (dm_key m) (NoDocument (dm_key m) (dm_read_time m) False) (documents this) \<and>
           fmlookup (documents this') (dm_key m) =
             Some (NoDocument (dm_key m) (dm_read_time m) False) \<and>
           current_document this' = None \<and>
           fst (ApplyChanges cb this') \<noteq>
             Inl (FromErrno kErrorInvalidArgument
               ''Bundled documents end with a document metadata element instead of a document.'')"
  using assms
  by (simp add: AddElement_DocumentMetadata_deleted Let_def ApplyChanges_def split_beta)

theorem AddElement_deleted_document_tombstone_witness:
  "\<not> dm_exists metadata_B \<and>
   (\<exists>r this'. AddElement example_pending (DocumentMetadataElement metadata_B) 10 =
        Returned (Inr r, this') \<and>
      fmlookup (documents this') ''coll/B'' = Some (NoDocument ''coll/B'' 7 False) \<and>
      current_document this' = None)"
proof -
  have deleted: "\<not> dm_exists metadata_B"
    by (simp add: metadata_B_def)
  have fields: "dm_key metadata_B = ''coll/B''" "dm_read_time metadata_B = 7"
    by (simp_all add: metadata_B_def)
  from AddElement_deleted_document_tombstone
      [OF deleted, of example_pending 10 "\<lambda>docs id. docs"]
  show ?thesis
    unfolding fields using deleted by blast
qed

subsection \<open>C8\<close>

text \<open>
  Claim C8. When \<^verbatim>\<open>ApplyChanges\<close> succeeds (no document is pending and the number of
  accumulated documents is the declared total), the calls to the callback are, in this
  order: \<^verbatim>\<open>ApplyBundledDocuments\<close> with the accumulated documents and the bundle
  identifier; one \<^verbatim>\<open>SaveNamedQuery\<close> for each received query, in the order of receipt,
  with the set of the document keys whose metadata in the index lists the query's name;
  \<^verbatim>\<open>SaveBundle\<close> with the bundle metadata. The result is what
  \<^verbatim>\<open>ApplyBundledDocuments\<close> returned.
\<close>

theorem ApplyChanges_success_call_order:
  assumes "current_document this = None"
    and "total_documents (metadata this) = size_of (documents this)"
  shows "ApplyChanges cb this =
    (Inr (cb (documents this) (bundle_id (metadata this))),
     ApplyBundledDocuments (documents this) (bundle_id (metadata this)) #
     map (\<lambda>q. SaveNamedQuery q
            {dm_key m |k m. (k, m) \<in> set (documents_metadata this) \<and>
                            query_name q \<in> set (dm_queries m)})
       (queries this) @
     [SaveBundle (metadata this)])"
proof -
  have present: "\<forall>q \<in> set (queries this).
      map_of (GetQueryDocumentMapping this) (query_name q) =
        Some (keys_listing (documents_metadata this) (query_name q))"
    by (simp add: map_of_GetQueryDocumentMapping)
  show ?thesis
    using assms
    by (simp add: ApplyChanges_def Let_def fold_SaveNamedQuery [OF present] keys_listing_eq)
qed

theorem ApplyChanges_success_call_order_witness:
  "current_document example_loaded = None \<and>
   total_documents (metadata example_loaded) = size_of (documents example_loaded) \<and>
   ApplyChanges (\<lambda>docs id. fmdrop ''coll/B'' docs) example_loaded =
     (Inr (fmupd ''coll/A'' (ModelDocument ''coll/A'' 5 ''X'') fmempty),
      [ApplyBundledDocuments (documents example_loaded) ''bundle-1'',
       SaveNamedQuery query_q1 {''coll/A''},
       SaveBundle example_metadata])"
proof -
  have marker: "current_document example_loaded = None"
    by (simp add: example_loaded_def)
  have count: "total_documents (metadata example_loaded) = size_of (documents example_loaded)"
    by (simp add: example_loaded_def example_metadata_def size_of_fmupd size_of_fmempty)
  have changes: "fmdrop ''coll/B'' (documents example_loaded) =
      fmupd ''coll/A'' (ModelDocument ''coll/A'' 5 ''X'') fmempty"
    by (simp add: example_loaded_def fmdrop_fmupd)
  note calls = ApplyChanges_success_call_order
      [OF marker count, of "\<lambda>docs id. fmdrop ''coll/B'' docs",
       unfolded keys_listing_eq [symmetric] changes]
  have "ApplyChanges (\<lambda>docs id. fmdrop ''coll/B'' docs) example_loaded =
     (Inr (fmupd ''coll/A'' (ModelDocument ''coll/A'' 5 ''X'') fmempty),
      [ApplyBundledDocuments (documents example_loaded) ''bundle-1'',
       SaveNamedQuery query_q1 {''coll/A''},
       SaveBundle example_metadata])"
    unfolding calls
    by (simp add: example_loaded_def example_metadata_def keys_listing_def metadata_A_def
        metadata_B_def query_q1_def)
  with marker count show ?thesis
    by simp
qed

subsection \<open>C9\<close>

text \<open>
  Claim C9. For an element of any kind but \<^verbatim>\<open>Metadata\<close> the call of \<^verbatim>\<open>AddElement\<close>
  returns (with a value or an error status): the assertion does not fire. For an element
  of kind \<^verbatim>\<open>Metadata\<close> the assertion fires, and the call does not return an error
  status.
\<close>

theorem AddElement_hard_assert_iff_Metadata:
  "(ElementType e \<noteq> Metadata \<longrightarrow> (\<exists>r. AddElement this e b = Returned r)) \<and>
   (ElementType e = Metadata \<longrightarrow>
      AddElement this e b = HardAssertFailed ''Unexpected bundle metadata element.'')"
proof (cases e)
  case (MetadataElement md)
  then show ?thesis by (simp add: AddElement_Metadata)
next
  case (NamedQueryElement q)
  then show ?thesis by (simp add: AddElement_NamedQuery)
next
  case (DocumentMetadataElement m)
  then show ?thesis
    by (cases "dm_exists m")
       (simp_all add: AddElement_DocumentMetadata_exists AddElement_DocumentMetadata_deleted
          Let_def)
next
  case (DocumentElement d)
  then show ?thesis
    by (cases "current_document this = Some (doc_key d)")
       (simp_all add: AddElement_Document_mismatch AddElement_Document_match Let_def)
qed

theorem AddElement_hard_assert_iff_Metadata_witness:
  "ElementType (DocumentElement document_A) \<noteq> Metadata \<and>
   (\<exists>r. AddElement example_loaded (DocumentElement document_A) 40 = Returned r) \<and>
   ElementType (MetadataElement example_metadata) = Metadata \<and>
   AddElement example_loaded (MetadataElement example_metadata) 10 =
     HardAssertFailed ''Unexpected bundle metadata element.''"
  using AddElement_hard_assert_iff_Metadata [of "DocumentElement document_A" example_loaded 40]
    AddElement_hard_assert_iff_Metadata [of "MetadataElement example_metadata" example_loaded 10]
  by simp

subsection \<open>C10\<close>

text \<open>
  Claim C10. From any loader, the metadata of an existing document \<open>A\<close> can be followed
  by the metadata of another document \<open>B\<close> with no \<^verbatim>\<open>Document\<close> element for \<open>A\<close>, and
  the load goes through. If \<open>B\<close> is a deleted document, its metadata is accepted and
  leaves the pending marker empty, with the tombstone of \<open>B\<close> as the only change of the
  accumulated documents. If \<open>B\<close> exists, its metadata and then its document are
  accepted and leave the marker empty, with the document of \<open>B\<close> as the only change.
  Either way \<^verbatim>\<open>ApplyChanges\<close> then succeeds whenever the number of accumulated
  documents is the declared total.
\<close>

theorem pending_document_dropped_ApplyChanges_succeeds:
  assumes "dm_exists mA"
  shows
    "(\<not> dm_exists mB \<longrightarrow>
       (\<exists>this'.
          AddElements this
            [(DocumentMetadataElement mA, b1), (DocumentMetadataElement mB, b2)] =
            Returned (Inr this') \<and>
          current_document this' = None \<and>
          metadata this' = metadata this \<and>
          documents this' =
            fmupd (dm_key mB) (NoDocument (dm_key mB) (dm_read_time mB) False)
              (documents this) \<and>
          (total_documents (metadata this') = size_of (documents this') \<longrightarrow>
             (\<exists>calls. ApplyChanges cb this' =
                (Inr (cb (documents this') (bundle_id (metadata this'))), calls))))) \<and>
     (dm_exists mB \<and> doc_key dB = dm_key mB \<longrightarrow>
       (\<exists>this'.
          AddElements this
            [(DocumentMetadataElement mA, b1), (DocumentMetadataElement mB, b2),
             (DocumentElement dB, b3)] =
            Returned (Inr this') \<and>
          current_document this' = None \<and>
          metadata this' = metadata this \<and>
          documents this' = fmupd (doc_key dB) (document dB) (documents this) \<and>
          (total_documents (metadata this') = size_of (documents this') \<longrightarrow>
             (\<exists>calls. ApplyChanges cb this' =
                (Inr (cb (documents this') (bundle_id (metadata this'))), calls)))))"
proof (intro conjI impI)
  assume "\<not> dm_exists mB"
  with assms show "\<exists>this'.
      AddElements this [(DocumentMetadataElement mA, b1), (DocumentMetadataElement mB, b2)] =
        Returned (Inr this') \<and>
      current_document this' = None \<and>
          metadata this' = metadata this \<and>
      documents this' =
        fmupd (dm_key mB) (NoDocument (dm_key mB) (dm_read_time mB) False) (documents this) \<and>
      (total_documents (metadata this') = size_of (documents this') \<longrightarrow>
         (\<exists>calls. ApplyChanges cb this' =
            (Inr (cb (documents this') (bundle_id (metadata this'))), calls)))"
    by (simp add: AddElement_DocumentMetadata_deleted AddElement_DocumentMetadata_exists Let_def
        ApplyChanges_def split_beta)
next
  assume "dm_exists mB \<and> doc_key dB = dm_key mB"
  with assms show "\<exists>this'.
      AddElements this
        [(DocumentMetadataElement mA, b1), (DocumentMetadataElement mB, b2),
         (DocumentElement dB, b3)] =
        Returned (Inr this') \<and>
      current_document this' = None \<and>
          metadata this' = metadata this \<and>
      documents this' = fmupd (doc_key dB) (document dB) (documents this) \<and>
      (total_documents (metadata this') = size_of (documents this') \<longrightarrow>
         (\<exists>calls. ApplyChanges cb this' =
            (Inr (cb (documents this') (bundle_id (metadata this'))), calls)))"
    by (simp add: AddElement_DocumentMetadata_exists AddElement_Document_match Let_def
        ApplyChanges_def split_beta)
qed

theorem pending_document_dropped_ApplyChanges_succeeds_witness:
  "dm_exists metadata_A \<and> \<not> dm_exists metadata_B \<and>
   (\<exists>this'.
      AddElements (BundleLoader_init single_metadata)
        [(DocumentMetadataElement metadata_A, 20), (DocumentMetadataElement metadata_B, 10)] =
        Returned (Inr this') \<and>
      current_document this' = None \<and>
      fmlookup (documents this') (dm_key metadata_A) = None \<and>
      total_documents (metadata this') = size_of (documents this') \<and>
      (\<exists>calls. ApplyChanges (\<lambda>docs id. docs) this' = (Inr (documents this'), calls))) \<and>
   dm_exists metadata_C \<and> doc_key document_C = dm_key metadata_C \<and>
   (\<exists>this'.
      AddElements (BundleLoader_init single_metadata)
        [(DocumentMetadataElement metadata_A, 20), (DocumentMetadataElement metadata_C, 10),
         (DocumentElement document_C, 40)] =
        Returned (Inr this') \<and>
      current_document this' = None \<and>
      fmlookup (documents this') (dm_key metadata_A) = None \<and>
      total_documents (metadata this') = size_of (documents this') \<and>
      (\<exists>calls. ApplyChanges (\<lambda>docs id. docs) this' = (Inr (documents this'), calls)))"
proof -
  have exists: "dm_exists metadata_A" and deleted: "\<not> dm_exists metadata_B"
    and other: "dm_exists metadata_C \<and> doc_key document_C = dm_key metadata_C"
    by (simp_all add: metadata_A_def metadata_B_def metadata_C_def document_C_def)
  note dropped = pending_document_dropped_ApplyChanges_succeeds
      [OF exists, of _ "BundleLoader_init single_metadata" 20 10 "\<lambda>docs id. docs" _ 40]
  from dropped [of metadata_B document_C] deleted
  obtain s1 where
    run1: "AddElements (BundleLoader_init single_metadata)
        [(DocumentMetadataElement metadata_A, 20), (DocumentMetadataElement metadata_B, 10)] =
        Returned (Inr s1)"
    and marker1: "current_document s1 = None"
    and md1: "metadata s1 = metadata (BundleLoader_init single_metadata)"
    and docs1: "documents s1 =
        fmupd (dm_key metadata_B) (NoDocument (dm_key metadata_B) (dm_read_time metadata_B) False)
          (documents (BundleLoader_init single_metadata))"
    and succeeds1: "total_documents (metadata s1) = size_of (documents s1) \<longrightarrow>
        (\<exists>calls. ApplyChanges (\<lambda>docs id. docs) s1 = (Inr (documents s1), calls))"
    by blast
  have count1: "total_documents (metadata s1) = size_of (documents s1)"
    by (simp add: md1 docs1 single_metadata_def BundleLoader_init_def size_of_fmupd
        size_of_fmempty)
  have absent1: "fmlookup (documents s1) (dm_key metadata_A) = None"
    by (simp add: docs1 BundleLoader_init_def metadata_A_def metadata_B_def)
  from dropped [of metadata_C document_C] other
  obtain s2 where
    run2: "AddElements (BundleLoader_init single_metadata)
        [(DocumentMetadataElement metadata_A, 20), (DocumentMetadataElement metadata_C, 10),
         (DocumentElement document_C, 40)] =
        Returned (Inr s2)"
    and marker2: "current_document s2 = None"
    and md2: "metadata s2 = metadata (BundleLoader_init single_metadata)"
    and docs2: "documents s2 =
        fmupd (doc_key document_C) (document document_C)
          (documents (BundleLoader_init single_metadata))"
    and succeeds2: "total_documents (metadata s2) = size_of (documents s2) \<longrightarrow>
        (\<exists>calls. ApplyChanges (\<lambda>docs id. docs) s2 = (Inr (documents s2), calls))"
    by blast
  have count2: "total_documents (metadata s2) = size_of (documents s2)"
    by (simp add: md2 docs2 single_metadata_def BundleLoader_init_def size_of_fmupd
        size_of_fmempty)
  have absent2: "fmlookup (documents s2) (dm_key metadata_A) = None"
    by (simp add: docs2 BundleLoader_init_def metadata_A_def document_C_def)
  from exists deleted run1 marker1 absent1 count1 succeeds1
    other run2 marker2 absent2 count2 succeeds2
  show ?thesis
    by blast
qed

end
